theory Spec2Isabelle
  imports Complex_Main "HOL-Library.AList"
begin

section \<open>Resume analysis assistant: shallow embedding of the orchestration code\<close>

text \<open>
  The program is a thin orchestration layer over external services: document parsers, a
  text splitter, a vector database and a language model. The functions of
  \<^verbatim>\<open>config.py\<close>, \<^verbatim>\<open>document_processor.py\<close>, \<^verbatim>\<open>vector_store.py\<close> and
  \<^verbatim>\<open>app.py\<close> are embedded below, one HOL function per source function. Mutation of
  \<^verbatim>\<open>self\<close> and of the Streamlit session is explicit state passing, every
  \<^verbatim>\<open>raise\<close> and every \<^verbatim>\<open>except\<close> is a branch on a sum type, and each external
  service is a field of an environment record, so that a theorem quantified over the
  environment holds for whatever the service does.
\<close>

subsection \<open>Python values\<close>

text \<open>Exceptions carry the message that \<^verbatim>\<open>str(e)\<close> returns.\<close>

datatype exn =
    ValueError string
  | KeyError string
  | AttributeError string
  | NotFoundError string
  | ServiceError string

fun str_exn :: "exn \<Rightarrow> string" where
  "str_exn (ValueError m) = m"
| "str_exn (KeyError m) = m"
| "str_exn (AttributeError m) = m"
| "str_exn (NotFoundError m) = m"
| "str_exn (ServiceError m) = m"

text \<open>A triple-quoted literal, written line by line: the lines joined by line feeds.\<close>

fun py_lines :: "string list \<Rightarrow> string" where
  "py_lines [] = []"
| "py_lines [l] = l"
| "py_lines (l # ls) = l @ CHR 0x0A # py_lines ls"

text \<open>
  A dictionary with string keys, in insertion order. \<^verbatim>\<open>d[k]\<close> raises
  \<^verbatim>\<open>KeyError\<close> on a missing key, \<^verbatim>\<open>d.get(k, default)\<close> does not.
\<close>

definition dict_index :: "(string \<times> 'v) list \<Rightarrow> string \<Rightarrow> exn + 'v" where
  "dict_index d k = (case map_of d k of None \<Rightarrow> Inl (KeyError k) | Some v \<Rightarrow> Inr v)"

definition dict_get :: "(string \<times> 'v) list \<Rightarrow> string \<Rightarrow> 'v \<Rightarrow> 'v" where
  "dict_get d k dflt = (case map_of d k of None \<Rightarrow> dflt | Some v \<Rightarrow> v)"

subsection \<open>config.py\<close>

definition COLLECTION_NAME :: string where
  "COLLECTION_NAME = ''resume_collection''"

definition CHUNK_SIZE :: nat where
  "CHUNK_SIZE = 800"

definition CHUNK_OVERLAP :: nat where
  "CHUNK_OVERLAP = 100"

definition prompt_general :: string where
  "prompt_general = py_lines
    [''You are an expert resume analyzer and technical recruiter. '',
     ''    Analyze the resume context below to provide comprehensive insights about the candidate.'',
     '''',
     ''    Context: {context}'',
     ''    Question: {question}'',
     '''',
     ''    Provide structured, professional analysis focusing on qualifications, experience, and role fit.'',
     ''    Answer: '']"

definition prompt_technical :: string where
  "prompt_technical = py_lines
    [''You are a senior technical recruiter. Focus on technical skills analysis.'',
     ''    '',
     ''    Extract and analyze:'',
     ''    - Programming languages and proficiency'',
     ''    - Frameworks, tools, and technologies'',
     ''    - Years of experience with each skill'',
     ''    - Technical certifications'',
     ''    - Project complexity indicators'',
     '''',
     ''    Context: {context}'',
     ''    Question: {question}'',
     '''',
     ''    Structure as: 1) Primary Skills 2) Secondary Skills 3) Tools/Frameworks 4) Experience Level'',
     ''    Answer: '']"

definition prompt_experience :: string where
  "prompt_experience = py_lines
    [''You are an HR professional analyzing work experience and career progression.'',
     ''    '',
     ''    Focus on:'',
     ''    - Career timeline and progression'',
     ''    - Job responsibilities and scope'',
     ''    - Achievements and impact'',
     ''    - Leadership and management experience'',
     ''    - Industry background'',
     '''',
     ''    Context: {context}'',
     ''    Question: {question}'',
     '''',
     ''    Structure as: 1) Career Summary 2) Key Positions 3) Achievements 4) Progression Analysis'',
     ''    Answer: '']"

definition prompt_match :: string where
  "prompt_match = py_lines
    [''You are evaluating candidate-role fit. Analyze how well this candidate matches specific requirements.'',
     ''    '',
     ''    Assess:'',
     ''    - Required skills alignment'',
     ''    - Experience level match'',
     ''    - Industry background relevance'',
     ''    - Growth potential'',
     ''    - Potential concerns'',
     '''',
     ''    Context: {context}'',
     ''    Question: {question}'',
     '''',
     ''    Structure as: 1) Match Score 2) Strengths 3) Gaps 4) Recommendations'',
     ''    Answer: '']"

definition RESUME_PROMPTS :: "(string \<times> string) list" where
  "RESUME_PROMPTS =
     [(''general'', prompt_general), (''technical'', prompt_technical),
      (''experience'', prompt_experience), (''match'', prompt_match)]"

subsection \<open>app.py: the prompt selector\<close>

record prompt_template =
  template :: string
  input_variables :: "string list"

text \<open>
  \<^verbatim>\<open>config.RESUME_PROMPTS.get(prompt_type, config.RESUME_PROMPTS["general"])\<close>: the
  default is evaluated first, and would raise if the key were missing.
\<close>

definition get_prompt_template :: "string \<Rightarrow> exn + prompt_template" where
  "get_prompt_template prompt_type =
     (case dict_index RESUME_PROMPTS ''general'' of
        Inl e \<Rightarrow> Inl e
      | Inr dflt \<Rightarrow>
          Inr \<lparr>template = dict_get RESUME_PROMPTS prompt_type dflt,
               input_variables = [''context'', ''question'']\<rparr>)"

text \<open>
  Modelled from the spec: the rendering of a prompt template, which the source leaves to the
  prompt library. The spec has it substitute the context for the placeholder
  \<^verbatim>\<open>{context}\<close> and the raw question for \<^verbatim>\<open>{question}\<close>; the template is
  scanned once, so substituted text is not scanned again.
\<close>

function format_prompt :: "string \<Rightarrow> string \<Rightarrow> string \<Rightarrow> string" where
  "format_prompt [] context question = []"
| "format_prompt (c # cs) context question =
     (if take 9 (c # cs) = ''{context}'' then context @ format_prompt (drop 8 cs) context question
      else if take 10 (c # cs) = ''{question}'' then question @ format_prompt (drop 9 cs) context question
      else c # format_prompt cs context question)"
  by pat_completeness auto
termination
  by (relation "measure (\<lambda>(t, c, q). length t)") auto

definition render_prompt :: "string \<Rightarrow> string \<Rightarrow> string \<Rightarrow> exn + string" where
  "render_prompt mode context question =
     (case get_prompt_template mode of
        Inl e \<Rightarrow> Inl e
      | Inr p \<Rightarrow> Inr (format_prompt (template p) context question))"

subsection \<open>Documents, the interface and the external services\<close>

datatype meta_value = MStr string | MInt int

text \<open>A document of the document library: its text and its metadata dictionary.\<close>

record document =
  page_content :: string
  metadata :: "(string \<times> meta_value) list"

datatype loader = PyPDFLoader | TextLoader | Docx2txtLoader

text \<open>The vector-store object of the vector-database library, bound to a collection name.\<close>

datatype chroma = Chroma string

record retriever =
  r_store :: chroma
  search_type :: string
  r_k :: int

record qa_chain =
  chain_retriever :: retriever
  chain_prompt :: prompt_template

record message =
  role :: string
  content :: string
  sources :: "document list option"

record uploaded_file =
  name :: string
  buffer :: string

text \<open>What the program asks the interface to display.\<close>

datatype ui_event =
    StError string
  | StWarning string
  | StInfo string
  | StSuccess string
  | StMarkdown string
  | StExpander string "(meta_value \<times> string) list"

text \<open>
  The state the program reads and writes: the collections of the persistent database
  client (\<^verbatim>\<open>VectorStore.client\<close>), the store object
  (\<^verbatim>\<open>VectorStore.vector_store\<close>, \<open>None\<close> for Python's \<^verbatim>\<open>None\<close>), the file
  system, the fields of the Streamlit session, the output of the interface, and the
  prompts sent to the language-model service.
\<close>

record state =
  client :: "string \<rightharpoonup> document list"
  vector_store :: "chroma option"
  files :: "string \<rightharpoonup> string"
  resumes_processed :: "string list"
  messages :: "message list"
  current_prompt_type :: string
  shown :: "ui_event list"
  llm_log :: "string list"

text \<open>
  The external services, as parameters. A parser, that is constructing the loader of the
  given kind for a path and calling its \<^verbatim>\<open>load\<close>, reads the file system and returns
  documents or raises; the splitter is the recursive character splitter, given
  chunk size and overlap; a fault field says whether a call to the database raises, in
  which state it leaves the collections, and with which exception; \<open>not_found_text\<close> is
  the text of the error the database raises for a collection that does not exist;
  \<open>similarity\<close> scores a chunk against a query;
  \<open>llm\<close> is the language model; \<open>mktemp\<close> names a new temporary file with the given
  suffix; \<open>unlink_raises\<close> says whether removing a path raises.
\<close>

record env =
  load :: "loader \<Rightarrow> string \<Rightarrow> (string \<rightharpoonup> string) \<Rightarrow> exn + document list"
  split_documents :: "nat \<Rightarrow> nat \<Rightarrow> document list \<Rightarrow> exn + document list"
  chroma_fault :: "(string \<rightharpoonup> document list) \<Rightarrow> (exn \<times> (string \<rightharpoonup> document list)) option"
  add_fault :: "(string \<rightharpoonup> document list) \<Rightarrow> document list
                 \<Rightarrow> (exn \<times> (string \<rightharpoonup> document list)) option"
  delete_fault :: "(string \<rightharpoonup> document list) \<Rightarrow> (exn \<times> (string \<rightharpoonup> document list)) option"
  search_fault :: "(string \<rightharpoonup> document list) \<Rightarrow> string \<Rightarrow> exn option"
  not_found_text :: "string \<Rightarrow> string"
  similarity :: "string \<Rightarrow> document \<Rightarrow> real"
  llm :: "string \<Rightarrow> exn + string"
  mktemp :: "(string \<rightharpoonup> string) \<Rightarrow> string \<Rightarrow> exn + string"
  unlink_raises :: "(string \<rightharpoonup> string) \<Rightarrow> string \<Rightarrow> bool"

definition st_error :: "string \<Rightarrow> state \<Rightarrow> state" where
  "st_error msg s = s\<lparr>shown := shown s @ [StError msg]\<rparr>"

subsection \<open>Standard library: paths and strings\<close>

text \<open>\<^verbatim>\<open>str.rfind\<close> for a single character: the last index, or \<open>-1\<close>.\<close>

definition rfind :: "char \<Rightarrow> string \<Rightarrow> int" where
  "rfind c p =
     (if c \<in> set p then int (length p) - 1 - int (length (takeWhile (\<lambda>x. x \<noteq> c) (rev p)))
      else - 1)"

text \<open>
  \<^verbatim>\<open>os.path.splitext\<close> on a POSIX path: the extension starts at the last dot of the last
  component, unless only dots come before it in that component.
\<close>

definition splitext :: "string \<Rightarrow> string \<times> string" where
  "splitext p =
     (let sepIndex = rfind CHR ''/'' p; dotIndex = rfind CHR ''.'' p
      in if dotIndex > sepIndex \<and>
            list_ex (\<lambda>c. c \<noteq> CHR ''.'')
              (take (nat (dotIndex - (sepIndex + 1))) (drop (nat (sepIndex + 1)) p))
         then (take (nat dotIndex) p, drop (nat dotIndex) p)
         else (p, []))"

definition basename :: "string \<Rightarrow> string" where
  "basename p = drop (nat (rfind CHR ''/'' p + 1)) p"

text \<open>
  \<^verbatim>\<open>str.lower\<close>, on the ASCII letters: a string is its bytes here, and the capital
  letters outside ASCII, which \<^verbatim>\<open>str.lower\<close> lowers too, are left as they are. No
  such letter lowers to a letter of a supported extension, so the choice of the loader is
  the code's for every path; for an extension with such a letter the text of the
  unsupported-format error shows it unlowered.
\<close>

definition lower_char :: "char \<Rightarrow> char" where
  "lower_char c =
     (let n = (of_char c :: nat) in if 65 \<le> n \<and> n \<le> 90 then char_of (n + 32) else c)"

definition lower :: "string \<Rightarrow> string" where
  "lower p = map lower_char p"

text \<open>\<^verbatim>\<open>name.split('.')[-1]\<close>: what follows the last dot, the whole name without one.\<close>

definition last_dot_part :: "string \<Rightarrow> string" where
  "last_dot_part n = rev (takeWhile (\<lambda>x. x \<noteq> CHR ''.'') (rev n))"

subsection \<open>document\_processor.py\<close>

definition file_extension :: "string \<Rightarrow> string" where
  "file_extension file_path = lower (snd (splitext file_path))"

definition set_filename :: "string \<Rightarrow> document \<Rightarrow> document" where
  "set_filename fname doc =
     doc\<lparr>metadata := AList.update ''filename'' (MStr fname) (metadata doc)\<rparr>"

text \<open>The body of the \<^verbatim>\<open>try\<close> block of \<^verbatim>\<open>load_document\<close>.\<close>

definition choose_loader :: "string \<Rightarrow> exn + loader" where
  "choose_loader ext =
     (if ext = ''.pdf'' then Inr PyPDFLoader
      else if ext \<in> set [''.txt'', ''.md''] then Inr TextLoader
      else if ext = ''.docx'' then Inr Docx2txtLoader
      else Inl (ValueError (''Unsupported file type: '' @ ext)))"

definition load_document_try :: "env \<Rightarrow> state \<Rightarrow> string \<Rightarrow> exn + document list" where
  "load_document_try e s file_path =
     (case choose_loader (file_extension file_path) of
        Inl err \<Rightarrow> Inl err
      | Inr ldr \<Rightarrow>
          (case load e ldr file_path (files s) of
             Inl err \<Rightarrow> Inl err
           | Inr documents \<Rightarrow> Inr (map (set_filename (basename file_path)) documents)))"

definition load_document :: "env \<Rightarrow> state \<Rightarrow> string \<Rightarrow> document list \<times> state" where
  "load_document e s file_path =
     (case load_document_try e s file_path of
        Inr documents \<Rightarrow> (documents, s)
      | Inl err \<Rightarrow> ([], st_error (''Error loading '' @ file_path @ '': '' @ str_exn err) s))"

text \<open>The loop of \<^verbatim>\<open>process_documents\<close>, with \<^verbatim>\<open>all_documents\<close> as accumulator.\<close>

fun load_all :: "env \<Rightarrow> string list \<Rightarrow> document list \<Rightarrow> state \<Rightarrow> document list \<times> state" where
  "load_all e [] all_documents s = (all_documents, s)"
| "load_all e (file_path # rest) all_documents s =
     (case load_document e s file_path of
        (docs, s') \<Rightarrow> load_all e rest (all_documents @ docs) s')"

definition process_documents :: "env \<Rightarrow> state \<Rightarrow> string list \<Rightarrow> (exn + document list) \<times> state" where
  "process_documents e s file_paths =
     (case load_all e file_paths [] s of
        (all_documents, s') \<Rightarrow>
          if all_documents = [] then (Inr [], s')
          else (split_documents e CHUNK_SIZE CHUNK_OVERLAP all_documents, s'))"

subsection \<open>The vector database and the question-answering chain\<close>

text \<open>
  Modelled from the spec: the operations of the external vector database and of the
  retrieval chain, which the source only calls. A collection is the list of the chunks
  persisted under its name. Constructing the store object initialises the collection or
  loads the existing one; adding persists the chunks to the named collection; deleting
  removes the collection; a search returns the \<open>k\<close> chunks with highest similarity to
  the query, and nothing if the collection is empty or absent. Each call may instead
  raise, as the fault fields of the environment say.
\<close>

definition Chroma_new ::
  "env \<Rightarrow> (string \<rightharpoonup> document list) \<Rightarrow> string \<Rightarrow> (exn + chroma) \<times> (string \<rightharpoonup> document list)" where
  "Chroma_new e c nm =
     (case chroma_fault e c of
        Some (err, c') \<Rightarrow> (Inl err, c')
      | None \<Rightarrow> (Inr (Chroma nm), (case c nm of None \<Rightarrow> c(nm \<mapsto> []) | Some _ \<Rightarrow> c)))"

fun chroma_add_documents ::
  "env \<Rightarrow> (string \<rightharpoonup> document list) \<Rightarrow> chroma \<Rightarrow> document list
     \<Rightarrow> (exn + unit) \<times> (string \<rightharpoonup> document list)" where
  "chroma_add_documents e c (Chroma nm) docs =
     (case add_fault e c docs of
        Some (err, c') \<Rightarrow> (Inl err, c')
      | None \<Rightarrow> (Inr (), c(nm \<mapsto> (case c nm of None \<Rightarrow> [] | Some old \<Rightarrow> old) @ docs)))"

definition delete_collection ::
  "env \<Rightarrow> (string \<rightharpoonup> document list) \<Rightarrow> string \<Rightarrow> (exn + unit) \<times> (string \<rightharpoonup> document list)" where
  "delete_collection e c nm =
     (case delete_fault e c of
        Some (err, c') \<Rightarrow> (Inl err, c')
      | None \<Rightarrow> (Inr (), c(nm := None)))"

fun similarity_search ::
  "env \<Rightarrow> (string \<rightharpoonup> document list) \<Rightarrow> chroma \<Rightarrow> string \<Rightarrow> nat \<Rightarrow> exn + document list" where
  "similarity_search e c (Chroma nm) query k =
     (case search_fault e c query of
        Some err \<Rightarrow> Inl err
      | None \<Rightarrow>
          Inr (case c nm of
                 None \<Rightarrow> []
               | Some docs \<Rightarrow> take k (sort_key (\<lambda>d. - similarity e query d) docs)))"

text \<open>
  The length of the store object, as the vector-database library defines it: the number of
  chunks in its collection, counted by a call to the database, which raises when the
  collection does not exist. Python takes the store object for true when its length is not
  zero, so a store over an empty collection is falsy.
\<close>

fun chroma_len :: "env \<Rightarrow> (string \<rightharpoonup> document list) \<Rightarrow> chroma \<Rightarrow> exn + nat" where
  "chroma_len e c (Chroma nm) =
     (case c nm of
        None \<Rightarrow> Inl (NotFoundError (not_found_text e nm))
      | Some docs \<Rightarrow> Inr (length docs))"

text \<open>
  Calling the chain on a query: the retriever is run, the prompt is rendered with the
  concatenated chunk texts as context, the language model is invoked synchronously, and
  the answer comes back with the chunks used. The chain library puts a blank line between
  the texts it concatenates.
\<close>

fun join_texts :: "string list \<Rightarrow> string" where
  "join_texts [] = []"
| "join_texts [t] = t"
| "join_texts (t # ts) = t @ CHR 0x0A # CHR 0x0A # join_texts ts"

definition run_chain :: "env \<Rightarrow> state \<Rightarrow> qa_chain \<Rightarrow> string \<Rightarrow> (exn + string \<times> document list) \<times> state" where
  "run_chain e s ch query =
     (case similarity_search e (client s) (r_store (chain_retriever ch)) query
             (nat (r_k (chain_retriever ch))) of
        Inl err \<Rightarrow> (Inl err, s)
      | Inr docs \<Rightarrow>
          (let prompt = format_prompt (template (chain_prompt ch))
                          (join_texts (map page_content docs)) query;
               s' = s\<lparr>llm_log := llm_log s @ [prompt]\<rparr>
           in case llm e prompt of
                Inl err \<Rightarrow> (Inl err, s')
              | Inr answer \<Rightarrow> (Inr (answer, docs), s')))"

subsection \<open>vector\_store.py\<close>

definition initialize_vector_store :: "env \<Rightarrow> state \<Rightarrow> state" where
  "initialize_vector_store e s =
     (case Chroma_new e (client s) COLLECTION_NAME of
        (Inr vs, c') \<Rightarrow> s\<lparr>client := c', vector_store := Some vs\<rparr>
      | (Inl err, c') \<Rightarrow>
          st_error (''Error initializing vector store: '' @ str_exn err) (s\<lparr>client := c'\<rparr>))"

definition VectorStore_init :: "env \<Rightarrow> state \<Rightarrow> state" where
  "VectorStore_init e s = initialize_vector_store e (s\<lparr>vector_store := None\<rparr>)"

text \<open>Calling a method on \<^verbatim>\<open>None\<close> raises inside the \<^verbatim>\<open>try\<close> block.\<close>

definition none_has_no_attribute :: "string \<Rightarrow> exn" where
  "none_has_no_attribute a =
     AttributeError ([CHR 0x27] @ ''NoneType'' @ [CHR 0x27] @ '' object has no attribute ''
                     @ [CHR 0x27] @ a @ [CHR 0x27])"

definition add_documents :: "env \<Rightarrow> state \<Rightarrow> document list \<Rightarrow> bool \<times> state" where
  "add_documents e s documents =
     (if documents = [] then (False, s)
      else case vector_store s of
             None \<Rightarrow>
               (False, st_error (''Error adding documents: ''
                                 @ str_exn (none_has_no_attribute ''add_documents'')) s)
           | Some vs \<Rightarrow>
               (case chroma_add_documents e (client s) vs documents of
                  (Inr _, c') \<Rightarrow> (True, s\<lparr>client := c'\<rparr>)
                | (Inl err, c') \<Rightarrow>
                    (False, st_error (''Error adding documents: '' @ str_exn err)
                              (s\<lparr>client := c'\<rparr>))))"

text \<open>
  \<^verbatim>\<open>not self.vector_store\<close>: true of \<^verbatim>\<open>None\<close> and of a store object of length
  zero; taking the length of the store object may raise.
\<close>

definition not_vector_store :: "env \<Rightarrow> state \<Rightarrow> exn + bool" where
  "not_vector_store e s =
     (case vector_store s of
        None \<Rightarrow> Inr True
      | Some vs \<Rightarrow>
          (case chroma_len e (client s) vs of
             Inl err \<Rightarrow> Inl err
           | Inr n \<Rightarrow> Inr (n = 0)))"

definition get_retriever :: "env \<Rightarrow> state \<Rightarrow> int \<Rightarrow> exn + retriever option" where
  "get_retriever e s k =
     (case not_vector_store e s of
        Inl err \<Rightarrow> Inl err
      | Inr no_store \<Rightarrow>
          if no_store then Inr None
          else Inr (map_option (\<lambda>vs. \<lparr>r_store = vs, search_type = ''similarity'', r_k = k\<rparr>)
                      (vector_store s)))"

definition clear_database :: "env \<Rightarrow> state \<Rightarrow> bool \<times> state" where
  "clear_database e s =
     (case delete_collection e (client s) COLLECTION_NAME of
        (Inr _, c') \<Rightarrow> (True, initialize_vector_store e (s\<lparr>client := c'\<rparr>))
      | (Inl err, c') \<Rightarrow>
          (False, st_error (''Error clearing database: '' @ str_exn err) (s\<lparr>client := c'\<rparr>)))"

text \<open>
  Modelled from the spec: the operation \<^verbatim>\<open>retrieve(query, k)\<close> of the spec, which the
  source splits between \<^verbatim>\<open>get_retriever\<close> and the chain that runs the retriever. It
  is the search of the retriever that \<^verbatim>\<open>get_retriever\<close> hands out, and returns
  nothing when it hands out none.
\<close>

definition retrieve :: "env \<Rightarrow> state \<Rightarrow> string \<Rightarrow> int \<Rightarrow> exn + document list" where
  "retrieve e s query k =
     (case get_retriever e s k of
        Inl err \<Rightarrow> Inl err
      | Inr None \<Rightarrow> Inr []
      | Inr (Some r) \<Rightarrow> similarity_search e (client s) (r_store r) query (nat (r_k r)))"

subsection \<open>app.py\<close>

text \<open>
  \<^verbatim>\<open>setup_qa_chain\<close> asks for a retriever with \<^verbatim>\<open>k=5\<close> and returns \<^verbatim>\<open>None\<close>
  when there is none; a retriever and a chain, once built, are truthy objects.
\<close>

definition setup_qa_chain :: "env \<Rightarrow> state \<Rightarrow> string \<Rightarrow> exn + qa_chain option" where
  "setup_qa_chain e s prompt_type =
     (case get_retriever e s 5 of
        Inl err \<Rightarrow> Inl err
      | Inr None \<Rightarrow> Inr None
      | Inr (Some r) \<Rightarrow>
          (case get_prompt_template prompt_type of
             Inl err \<Rightarrow> Inl err
           | Inr pt \<Rightarrow> Inr (Some \<lparr>chain_retriever = r, chain_prompt = pt\<rparr>)))"

text \<open>The loop that saves the uploads to temporary files.\<close>

fun save_uploads ::
  "env \<Rightarrow> uploaded_file list \<Rightarrow> string list \<Rightarrow> string list \<Rightarrow> state
     \<Rightarrow> exn option \<times> string list \<times> string list \<times> state" where
  "save_uploads e [] temp_files processed_names s = (None, temp_files, processed_names, s)"
| "save_uploads e (f # rest) temp_files processed_names s =
     (case mktemp e (files s) (''.'' @ last_dot_part (name f)) of
        Inl err \<Rightarrow> (Some err, temp_files, processed_names, s)
      | Inr path \<Rightarrow>
          save_uploads e rest (temp_files @ [path]) (processed_names @ [name f])
            (s\<lparr>files := (files s)(path \<mapsto> buffer f)\<rparr>))"

text \<open>The \<^verbatim>\<open>finally\<close> block: each temporary file is removed, a failure to do so ignored.\<close>

fun unlink_all :: "env \<Rightarrow> string list \<Rightarrow> state \<Rightarrow> state" where
  "unlink_all e [] s = s"
| "unlink_all e (temp_file # rest) s =
     unlink_all e rest
       (if unlink_raises e (files s) temp_file then s
        else s\<lparr>files := (files s)(temp_file := None)\<rparr>)"

definition process_uploaded_files ::
  "env \<Rightarrow> state \<Rightarrow> uploaded_file list \<Rightarrow> (exn + bool) \<times> state" where
  "process_uploaded_files e s uploaded_files =
     (if uploaded_files = [] then (Inr False, s)
      else case save_uploads e uploaded_files [] [] s of
        (Some err, temp_files, processed_names, s1) \<Rightarrow> (Inl err, unlink_all e temp_files s1)
      | (None, temp_files, processed_names, s1) \<Rightarrow>
          (case process_documents e s1 temp_files of
             (Inl err, s2) \<Rightarrow> (Inl err, unlink_all e temp_files s2)
           | (Inr documents, s2) \<Rightarrow>
               if documents \<noteq> [] then
                 (case add_documents e s2 documents of
                    (success, s3) \<Rightarrow>
                      (Inr success,
                       unlink_all e temp_files
                         (if success
                          then s3\<lparr>resumes_processed := resumes_processed s3 @ processed_names\<rparr>
                          else s3)))
               else (Inr False, unlink_all e temp_files s2)))"

text \<open>The two symbols of the interface texts used below, as their UTF-8 bytes.\<close>

definition cross_mark :: string where
  "cross_mark = [CHR 0xE2, CHR 0x9D, CHR 0x8C]"

definition page_facing_up :: string where
  "page_facing_up = [CHR 0xF0, CHR 0x9F, CHR 0x93, CHR 0x84]"

text \<open>
  The display of an answer: the response, then an expander with, for each source, the
  \<^verbatim>\<open>filename\<close> entry of its metadata (or \<^verbatim>\<open>Unknown\<close>) and its first 400
  characters, and the assistant message appended to the session.
\<close>

definition show_answer :: "string \<Rightarrow> document list \<Rightarrow> state \<Rightarrow> state" where
  "show_answer response srcs s =
     (let s1 = s\<lparr>shown := shown s @ [StMarkdown response] @
                    (if srcs \<noteq> [] then
                       [StExpander (page_facing_up @ '' Resume Sources'')
                          (map (\<lambda>source. (dict_get (metadata source) ''filename'' (MStr ''Unknown''),
                                          take 400 (page_content source) @ ''...'')) srcs)]
                     else [])\<rparr>
      in s1\<lparr>messages := messages s1 @
               [\<lparr>role = ''assistant'', content = response, sources = Some srcs\<rparr>]\<rparr>)"

text \<open>The \<^verbatim>\<open>except\<close> branch of a question: the error is shown and kept as the answer.\<close>

definition show_exception :: "exn \<Rightarrow> state \<Rightarrow> state" where
  "show_exception err s =
     (let error_msg = cross_mark @ '' Error: '' @ str_exn err; s1 = st_error error_msg s
      in s1\<lparr>messages := messages s1 @
               [\<lparr>role = ''assistant'', content = error_msg, sources = None\<rparr>]\<rparr>)"

text \<open>
  A question typed into the chat input, and a pending question of a quick-analysis
  button. Both set the chain up for the current analysis mode and, if there is one,
  call it; they differ in the text shown when there is none.
\<close>

definition answer_question :: "env \<Rightarrow> string \<Rightarrow> state \<Rightarrow> string \<Rightarrow> state" where
  "answer_question e no_chain_msg s question =
     (case setup_qa_chain e s (current_prompt_type s) of
        Inl err \<Rightarrow> show_exception err s
      | Inr None \<Rightarrow> st_error no_chain_msg s
      | Inr (Some ch) \<Rightarrow>
          (case run_chain e s ch question of
             (Inl err, s1) \<Rightarrow> show_exception err s1
           | (Inr (response, srcs), s1) \<Rightarrow> show_answer response srcs s1))"

definition chat_input :: "env \<Rightarrow> state \<Rightarrow> string \<Rightarrow> state" where
  "chat_input e s prompt =
     answer_question e ''Unable to setup analysis chain. Please check your resumes.''
       (s\<lparr>messages := messages s @ [\<lparr>role = ''user'', content = prompt, sources = None\<rparr>],
          shown := shown s @ [StMarkdown prompt]\<rparr>)
       prompt"











subsection \<open>A reference environment\<close>

text \<open>
  An environment in which no service fails, for evaluating the program on concrete inputs:
  a parser that returns the text of the file as one document, a splitter that leaves
  documents below the chunk size alone, a database without faults, and a language model
  with a fixed answer. The initial state is the one before
  \<^verbatim>\<open>ResumeAnalyzer.__init__\<close> has run.
\<close>

definition plain_env :: env where
  "plain_env =
     \<lparr>load = (\<lambda>ldr p fs. case fs p of
                 None \<Rightarrow> Inl (ServiceError (''No such file: '' @ p))
               | Some txt \<Rightarrow> Inr [\<lparr>page_content = txt, metadata = [(''source'', MStr p)]\<rparr>]),
      split_documents = (\<lambda>size overlap docs. Inr docs),
      chroma_fault = (\<lambda>c. None),
      add_fault = (\<lambda>c docs. None),
      delete_fault = (\<lambda>c. None),
      search_fault = (\<lambda>c q. None),
      not_found_text = (\<lambda>nm. ''Collection '' @ nm @ '' does not exist.''),
      similarity = (\<lambda>q d. 0),
      llm = (\<lambda>prompt. Inr ''Python.''),
      mktemp = (\<lambda>fs suffix. Inr (''/tmp/tmpk3x9'' @ suffix)),
      unlink_raises = (\<lambda>fs p. False)\<rparr>"

definition initial_state :: state where
  "initial_state =
     \<lparr>client = Map.empty, vector_store = None, files = Map.empty, resumes_processed = [],
      messages = [], current_prompt_type = ''general'', shown = [], llm_log = []\<rparr>"

definition acme_chunk :: document where
  "acme_chunk =
     \<lparr>page_content = ''Experienced Python developer with 5 years at Acme Corp'',
      metadata = [(''source'', MStr ''/tmp/tmpk3x9.txt''), (''filename'', MStr ''tmpk3x9.txt'')]\<rparr>"

text \<open>
  The state once the vector store has been constructed, an uploaded text file, the state
  with the upload saved to its temporary file, and the state with its chunk stored.
\<close>

definition ready_state :: state where
  "ready_state = VectorStore_init plain_env initial_state"

definition cv_upload :: uploaded_file where
  "cv_upload =
     \<lparr>name = ''cv.txt'', buffer = ''Experienced Python developer with 5 years at Acme Corp''\<rparr>"

definition saved_state :: state where
  "saved_state = ready_state\<lparr>files := (files ready_state)(''/tmp/tmpk3x9.txt'' \<mapsto> buffer cv_upload)\<rparr>"

definition stored_state :: state where
  "stored_state = snd (add_documents plain_env ready_state [acme_chunk])"

text \<open>
  Two variations: a database that refuses to delete a collection and leaves it as it is,
  and a parser that reads a file without finding any segment in it, as for a PDF file
  without pages.
\<close>

definition locked_env :: env where
  "locked_env =
     plain_env\<lparr>delete_fault := (\<lambda>c. Some (ServiceError ''database is locked'', c))\<rparr>"

definition blank_env :: env where
  "blank_env = plain_env\<lparr>load := (\<lambda>ldr p fs. Inr [])\<rparr>"

section \<open>Properties\<close>

subsection \<open>Prompt selector\<close>

lemma get_prompt_template_general:
  "get_prompt_template ''general'' =
     Inr \<lparr>template = prompt_general, input_variables = [''context'', ''question'']\<rparr>"
  by (simp add: get_prompt_template_def dict_index_def dict_get_def RESUME_PROMPTS_def)

text \<open>
  C6. For every mode string outside the recognised set general, technical, experience,
  match, the prompt selector returns the general template, so that for identical context
  and question the rendered prompt equals the one rendered for mode general.
\<close>

theorem unknown_mode_falls_back_to_general:
  assumes "mode \<notin> {''general'', ''technical'', ''experience'', ''match''}"
  shows "get_prompt_template mode = get_prompt_template ''general'' \<and>
         render_prompt mode context question = render_prompt ''general'' context question \<and>
         render_prompt mode context question = Inr (format_prompt prompt_general context question)"
proof -
  have "map_of RESUME_PROMPTS mode = None"
    using assms by (simp add: RESUME_PROMPTS_def)
  then have sel: "get_prompt_template mode = get_prompt_template ''general''"
    by (simp add: get_prompt_template_def dict_index_def dict_get_def RESUME_PROMPTS_def)
  then show ?thesis
    by (simp add: render_prompt_def get_prompt_template_general)
qed

theorem unknown_mode_falls_back_to_general_witness:
  "''salary'' \<notin> {''general'', ''technical'', ''experience'', ''match''} \<and>
   get_prompt_template ''salary'' = get_prompt_template ''general'' \<and>
   render_prompt ''salary'' ''Python, 5 years'' ''Which languages?'' =
     render_prompt ''general'' ''Python, 5 years'' ''Which languages?''"
  using unknown_mode_falls_back_to_general [of "''salary''" "''Python, 5 years''" "''Which languages?''"]
  by simp

subsection \<open>Document loader\<close>

lemma choose_loader_unsupported:
  assumes "ext \<notin> {''.pdf'', ''.txt'', ''.md'', ''.docx''}"
  shows "choose_loader ext = Inl (ValueError (''Unsupported file type: '' @ ext))"
  using assms by (simp add: choose_loader_def)

lemma choose_loader_supported:
  "ext \<in> {''.pdf'', ''.txt'', ''.md'', ''.docx''} \<longleftrightarrow> (\<exists>ldr. choose_loader ext = Inr ldr)"
  by (auto simp: choose_loader_def)

lemma filename_after_set_filename:
  "map_of (metadata (set_filename fname d)) ''filename'' = Some (MStr fname)"
  by (simp add: set_filename_def update_conv')

text \<open>
  C2, as the code has it. For every file path whose lower-cased extension is none of
  .pdf, .txt, .md, .docx, the unsupported-format error is raised and caught inside
  \<^verbatim>\<open>load_document\<close>: the function shows the message "Error loading (path):
  Unsupported file type: (extension)" and returns the empty list, so that the loop of
  \<^verbatim>\<open>process_documents\<close> adds no document for that file and goes on with the
  remaining files: the chunks are those of the remaining files.
\<close>

theorem unsupported_extension_reported_and_skipped:
  assumes "file_extension file_path \<notin> {''.pdf'', ''.txt'', ''.md'', ''.docx''}"
  shows "load_document_try e s file_path =
           Inl (ValueError (''Unsupported file type: '' @ file_extension file_path)) \<and>
         load_document e s file_path =
           ([], st_error (''Error loading '' @ file_path @ '': Unsupported file type: ''
                          @ file_extension file_path) s) \<and>
         load_all e (file_path # rest) all_documents s =
           load_all e rest all_documents
             (st_error (''Error loading '' @ file_path @ '': Unsupported file type: ''
                        @ file_extension file_path) s) \<and>
         process_documents e s (file_path # rest) =
           process_documents e
             (st_error (''Error loading '' @ file_path @ '': Unsupported file type: ''
                        @ file_extension file_path) s) rest"
proof -
  have raised: "load_document_try e s file_path =
      Inl (ValueError (''Unsupported file type: '' @ file_extension file_path))"
    by (simp add: load_document_try_def choose_loader_unsupported [OF assms])
  then have caught: "load_document e s file_path =
      ([], st_error (''Error loading '' @ file_path @ '': Unsupported file type: ''
                     @ file_extension file_path) s)"
    by (simp add: load_document_def)
  from raised caught show ?thesis by (simp add: process_documents_def)
qed

theorem unsupported_extension_reported_and_skipped_witness:
  "file_extension ''cv.xyz'' \<notin> {''.pdf'', ''.txt'', ''.md'', ''.docx''} \<and>
   load_document plain_env initial_state ''cv.xyz'' =
     ([], st_error ''Error loading cv.xyz: Unsupported file type: .xyz'' initial_state) \<and>
   load_all plain_env [''cv.xyz'', ''cv.txt''] [] initial_state =
     load_all plain_env [''cv.txt''] []
       (st_error ''Error loading cv.xyz: Unsupported file type: .xyz'' initial_state)"
proof -
  have ext: "file_extension ''cv.xyz'' = ''.xyz''" by code_simp
  then have unsupported: "file_extension ''cv.xyz'' \<notin> {''.pdf'', ''.txt'', ''.md'', ''.docx''}"
    by simp
  show ?thesis
    using unsupported
      unsupported_extension_reported_and_skipped
        [OF unsupported, of plain_env initial_state "[''cv.txt'']" "[]"]
    by (simp add: ext)
qed

text \<open>
  The claim as stated fails: the caller of \<^verbatim>\<open>load_document\<close> is handed the same
  value, the empty list, for a file of unsupported format and for a PDF file that cannot be
  read, so the unsupported format is no failure it could tell apart.
\<close>

theorem unsupported_extension_counterexample:
  "fst (load_document plain_env initial_state ''cv.xyz'') = [] \<and>
   fst (load_document plain_env initial_state ''cv.pdf'') = [] \<and>
   file_extension ''cv.xyz'' \<notin> {''.pdf'', ''.txt'', ''.md'', ''.docx''} \<and>
   file_extension ''cv.pdf'' \<in> {''.pdf'', ''.txt'', ''.md'', ''.docx''}"
proof -
  have xyz: "file_extension ''cv.xyz'' = ''.xyz''" by code_simp
  have pdf: "file_extension ''cv.pdf'' = ''.pdf''" by code_simp
  show ?thesis
    by (simp add: xyz pdf load_document_def load_document_try_def choose_loader_def
        plain_env_def initial_state_def)
qed

text \<open>
  C7, as the code has it. For every file with a supported extension that the parser loads,
  \<^verbatim>\<open>load_document\<close> returns exactly the segments the parser produced, as many as there
  are and with the same text, shows no error, and the \<^verbatim>\<open>filename\<close> entry of the
  metadata of every returned segment is the base name of the input path.
\<close>

theorem loaded_segments_carry_filename:
  assumes "choose_loader (file_extension file_path) = Inr ldr"
    and "load e ldr file_path (files s) = Inr documents"
  shows "load_document e s file_path = (map (set_filename (basename file_path)) documents, s) \<and>
         length (fst (load_document e s file_path)) = length documents \<and>
         map page_content (fst (load_document e s file_path)) = map page_content documents \<and>
         (\<forall>d \<in> set (fst (load_document e s file_path)).
            map_of (metadata d) ''filename'' = Some (MStr (basename file_path)))"
proof -
  have ret: "load_document e s file_path = (map (set_filename (basename file_path)) documents, s)"
    using assms by (simp add: load_document_def load_document_try_def)
  have text_kept: "map page_content (map (set_filename (basename file_path)) documents)
      = map page_content documents"
    by (simp add: set_filename_def comp_def)
  show ?thesis
    using text_kept by (auto simp: ret filename_after_set_filename)
qed


theorem loaded_segments_carry_filename_witness:
  "choose_loader (file_extension ''/tmp/tmpk3x9.txt'') = Inr TextLoader \<and>
   load plain_env TextLoader ''/tmp/tmpk3x9.txt'' (files saved_state) =
     Inr [\<lparr>page_content = buffer cv_upload,
           metadata = [(''source'', MStr ''/tmp/tmpk3x9.txt'')]\<rparr>] \<and>
   load_document plain_env saved_state ''/tmp/tmpk3x9.txt'' = ([acme_chunk], saved_state) \<and>
   map_of (metadata acme_chunk) ''filename'' = Some (MStr ''tmpk3x9.txt'')"
proof -
  have ext: "file_extension ''/tmp/tmpk3x9.txt'' = ''.txt''" by code_simp
  have base: "basename ''/tmp/tmpk3x9.txt'' = ''tmpk3x9.txt''" by code_simp
  have chosen: "choose_loader (file_extension ''/tmp/tmpk3x9.txt'') = Inr TextLoader"
    by (simp add: ext choose_loader_def)
  have loaded: "load plain_env TextLoader ''/tmp/tmpk3x9.txt'' (files saved_state) =
      Inr [\<lparr>page_content = buffer cv_upload,
            metadata = [(''source'', MStr ''/tmp/tmpk3x9.txt'')]\<rparr>]"
    by (simp add: plain_env_def saved_state_def)
  have chunk: "set_filename ''tmpk3x9.txt''
      \<lparr>page_content = buffer cv_upload, metadata = [(''source'', MStr ''/tmp/tmpk3x9.txt'')]\<rparr>
      = acme_chunk"
    by (simp add: set_filename_def acme_chunk_def cv_upload_def)
  show ?thesis
    using loaded_segments_carry_filename [OF chosen loaded] chosen loaded
    by (simp add: base chunk)
qed

text \<open>
  The claim as stated fails where the parser reads a file and finds no segment in it: the
  file has a supported extension and loads without an error, and the loader returns no
  segment.
\<close>

theorem loaded_segments_counterexample:
  "choose_loader (file_extension ''cv.pdf'') = Inr PyPDFLoader \<and>
   load blank_env PyPDFLoader ''cv.pdf'' (files initial_state) = Inr [] \<and>
   load_document blank_env initial_state ''cv.pdf'' = ([], initial_state)"
proof -
  have ext: "file_extension ''cv.pdf'' = ''.pdf''" by code_simp
  show ?thesis
    by (simp add: ext choose_loader_def load_document_def load_document_try_def
        blank_env_def plain_env_def)
qed

subsection \<open>Vector store\<close>

lemma ready_state_eq:
  "ready_state = initial_state\<lparr>client := [COLLECTION_NAME \<mapsto> []],
                               vector_store := Some (Chroma COLLECTION_NAME)\<rparr>"
  by (simp add: ready_state_def VectorStore_init_def initialize_vector_store_def Chroma_new_def
      plain_env_def initial_state_def)

lemma stored_state_eq:
  "stored_state = ready_state\<lparr>client := [COLLECTION_NAME \<mapsto> [acme_chunk]]\<rparr>"
  by (simp add: stored_state_def add_documents_def ready_state_eq plain_env_def initial_state_def)

text \<open>
  C9. \<^verbatim>\<open>add_documents\<close> called on an empty list returns \<^verbatim>\<open>False\<close> and leaves the
  whole state as it was, the collection included: no call to the database is made, whatever
  the environment, and no error is shown.
\<close>

theorem add_documents_empty_list:
  "add_documents e s [] = (False, s)"
  by (simp add: add_documents_def)

text \<open>
  C5, as the code has it. After \<^verbatim>\<open>add_documents\<close>, which when it returns
  \<^verbatim>\<open>True\<close> has persisted the chunks, and then a \<^verbatim>\<open>clear_database\<close>
  in which neither the deletion of the collection nor the construction of the new store
  object raises: \<^verbatim>\<open>clear_database\<close> returns \<^verbatim>\<open>True\<close>, the collection exists and
  is empty, the store object is bound to it, a retrieval for any query that does not raise
  returns nothing, and a second \<^verbatim>\<open>clear_database\<close> whose deletion does not raise
  returns \<^verbatim>\<open>True\<close> and leaves the state exactly as the first left it. When the
  deletion raises, \<^verbatim>\<open>clear_database\<close> shows "Error clearing database: (message)" and
  returns \<^verbatim>\<open>False\<close>, with the collections as the database left them.
\<close>

theorem clear_database_leaves_empty_collection:
  assumes add: "add_documents e s chunks = (added, s1)"
    and clr: "clear_database e s1 = (cleared, s2)"
  shows "(added \<longrightarrow>
            (\<exists>nm. vector_store s = Some (Chroma nm) \<and>
                  client s1 nm = Some ((case client s nm of None \<Rightarrow> [] | Some old \<Rightarrow> old) @ chunks))) \<and>
         (delete_fault e (client s1) = None \<and>
          chroma_fault e ((client s1)(COLLECTION_NAME := None)) = None \<longrightarrow>
            cleared \<and>
            client s2 = (client s1)(COLLECTION_NAME \<mapsto> []) \<and>
            vector_store s2 = Some (Chroma COLLECTION_NAME) \<and>
            (search_fault e (client s2) query = None \<longrightarrow> retrieve e s2 query k = Inr []) \<and>
            (delete_fault e (client s2) = None \<longrightarrow> clear_database e s2 = (True, s2))) \<and>
         (\<forall>err c'. delete_fault e (client s1) = Some (err, c') \<longrightarrow>
            \<not> cleared \<and>
            s2 = st_error (''Error clearing database: '' @ str_exn err) (s1\<lparr>client := c'\<rparr>))"
proof (intro conjI impI allI)
  assume added
  show "\<exists>nm. vector_store s = Some (Chroma nm) \<and>
      client s1 nm = Some ((case client s nm of None \<Rightarrow> [] | Some old \<Rightarrow> old) @ chunks)"
  proof (cases "vector_store s")
    case None
    with add \<open>added\<close> show ?thesis
      by (simp add: add_documents_def split: if_splits)
  next
    case (Some vs)
    obtain nm where vs: "vs = Chroma nm" by (cases vs)
    with add \<open>added\<close> Some show ?thesis
      by (auto simp: add_documents_def split: if_splits option.splits prod.splits sum.splits)
  qed
next
  assume ok: "delete_fault e (client s1) = None \<and>
      chroma_fault e ((client s1)(COLLECTION_NAME := None)) = None"
  then have del: "delete_fault e (client s1) = None"
    and init: "chroma_fault e ((client s1)(COLLECTION_NAME := None)) = None"
    by simp_all
  have s2: "s2 = s1\<lparr>client := (client s1)(COLLECTION_NAME \<mapsto> []),
                     vector_store := Some (Chroma COLLECTION_NAME)\<rparr>" and cleared: cleared
    using clr del init
    by (simp_all add: clear_database_def delete_collection_def initialize_vector_store_def
        Chroma_new_def)
  show cleared by (rule cleared)
  show coll: "client s2 = (client s1)(COLLECTION_NAME \<mapsto> [])"
    by (simp add: s2)
  show store: "vector_store s2 = Some (Chroma COLLECTION_NAME)"
    by (simp add: s2)
  show "retrieve e s2 query k = Inr []" if "search_fault e (client s2) query = None"
    using that by (simp add: retrieve_def get_retriever_def not_vector_store_def coll store)
  show "clear_database e s2 = (True, s2)" if "delete_fault e (client s2) = None"
  proof -
    have "(client s2)(COLLECTION_NAME := None) = (client s1)(COLLECTION_NAME := None)"
      by (simp add: coll)
    with that init show ?thesis
      by (simp add: clear_database_def delete_collection_def initialize_vector_store_def
          Chroma_new_def s2)
  qed
next
  fix err c'
  assume refused: "delete_fault e (client s1) = Some (err, c')"
  with clr show "\<not> cleared"
    by (auto simp: clear_database_def delete_collection_def)
  from refused clr show "s2 = st_error (''Error clearing database: '' @ str_exn err) (s1\<lparr>client := c'\<rparr>)"
    by (auto simp: clear_database_def delete_collection_def)
qed

theorem clear_database_leaves_empty_collection_witness:
  "add_documents plain_env ready_state [acme_chunk] = (True, stored_state) \<and>
   client stored_state COLLECTION_NAME = Some [acme_chunk] \<and>
   delete_fault plain_env (client stored_state) = None \<and>
   chroma_fault plain_env ((client stored_state)(COLLECTION_NAME := None)) = None \<and>
   clear_database plain_env stored_state = (True, ready_state) \<and>
   search_fault plain_env (client ready_state) ''Which languages?'' = None \<and>
   retrieve plain_env ready_state ''Which languages?'' 5 = Inr [] \<and>
   delete_fault plain_env (client ready_state) = None \<and>
   clear_database plain_env ready_state = (True, ready_state) \<and>
   delete_fault locked_env (client stored_state) =
     Some (ServiceError ''database is locked'', client stored_state) \<and>
   clear_database locked_env stored_state =
     (False, st_error ''Error clearing database: database is locked'' stored_state)"
proof -
  have add: "add_documents plain_env ready_state [acme_chunk] = (True, stored_state)"
    by (simp add: stored_state_def add_documents_def ready_state_eq plain_env_def)
  have del: "delete_fault plain_env (client stored_state) = None"
    and init: "chroma_fault plain_env ((client stored_state)(COLLECTION_NAME := None)) = None"
    and del2: "delete_fault plain_env (client ready_state) = None"
    and search: "search_fault plain_env (client ready_state) ''Which languages?'' = None"
    by (simp_all add: plain_env_def)
  have clr: "clear_database plain_env stored_state = (True, ready_state)"
    by (simp add: clear_database_def delete_collection_def initialize_vector_store_def
        Chroma_new_def stored_state_eq ready_state_eq plain_env_def)
  have stored: "client stored_state COLLECTION_NAME = Some [acme_chunk]"
    by (simp add: stored_state_eq)
  have add_l: "add_documents locked_env ready_state [acme_chunk] = (True, stored_state)"
    by (simp add: stored_state_def add_documents_def ready_state_eq locked_env_def plain_env_def)
  have refused: "delete_fault locked_env (client stored_state) =
      Some (ServiceError ''database is locked'', client stored_state)"
    by (simp add: locked_env_def)
  have clr_l: "clear_database locked_env stored_state =
      (fst (clear_database locked_env stored_state), snd (clear_database locked_env stored_state))"
    by simp
  from clear_database_leaves_empty_collection [OF add_l clr_l] refused
  have "\<not> fst (clear_database locked_env stored_state)"
    and "snd (clear_database locked_env stored_state) =
      st_error (''Error clearing database: '' @ str_exn (ServiceError ''database is locked''))
        (stored_state\<lparr>client := client stored_state\<rparr>)"
    by blast+
  then have failed: "clear_database locked_env stored_state =
      (False, st_error ''Error clearing database: database is locked'' stored_state)"
    by (simp add: prod_eq_iff)
  from clear_database_leaves_empty_collection
         [OF add clr, of "''Which languages?''" 5] add del init clr del2 search stored
  have "retrieve plain_env ready_state ''Which languages?'' 5 = Inr []"
    and "clear_database plain_env ready_state = (True, ready_state)"
    by simp_all
  with add del init clr del2 search stored refused failed show ?thesis
    by simp
qed

text \<open>
  The claim as stated fails where the database refuses the deletion: \<^verbatim>\<open>clear_database\<close>
  catches the exception and returns \<^verbatim>\<open>False\<close>, the collection keeps its chunks, and a
  retrieval still returns them.
\<close>

theorem clear_database_counterexample:
  "fst (add_documents locked_env ready_state [acme_chunk]) = True \<and>
   fst (clear_database locked_env (snd (add_documents locked_env ready_state [acme_chunk]))) = False \<and>
   retrieve locked_env
     (snd (clear_database locked_env (snd (add_documents locked_env ready_state [acme_chunk]))))
     ''What programming languages does this candidate know?'' 5 = Inr [acme_chunk]"
  by (simp add: add_documents_def clear_database_def delete_collection_def retrieve_def
      get_retriever_def not_vector_store_def st_error_def
      ready_state_eq locked_env_def plain_env_def initial_state_def)


subsection \<open>Uploads\<close>

lemma resumes_processed_st_error: "resumes_processed (st_error msg s) = resumes_processed s"
  by (simp add: st_error_def)

lemma resumes_processed_load_document:
  "resumes_processed (snd (load_document e s file_path)) = resumes_processed s"
  by (simp add: load_document_def resumes_processed_st_error split: sum.splits)

lemma resumes_processed_load_all:
  "resumes_processed (snd (load_all e file_paths acc s)) = resumes_processed s"
proof (induction file_paths arbitrary: acc s)
  case Nil
  then show ?case by simp
next
  case (Cons p ps)
  obtain docs s' where ld: "load_document e s p = (docs, s')"
    by (cases "load_document e s p")
  then have "resumes_processed s' = resumes_processed s"
    using resumes_processed_load_document [of e s p] by simp
  with Cons ld show ?case by simp
qed

lemma resumes_processed_process_documents:
  "resumes_processed (snd (process_documents e s file_paths)) = resumes_processed s"
proof -
  obtain docs s' where la: "load_all e file_paths [] s = (docs, s')"
    by (cases "load_all e file_paths [] s")
  then have "resumes_processed s' = resumes_processed s"
    using resumes_processed_load_all [of e file_paths "[]" s] by simp
  with la show ?thesis by (simp add: process_documents_def)
qed

lemma resumes_processed_add_documents:
  "resumes_processed (snd (add_documents e s documents)) = resumes_processed s"
  by (simp add: add_documents_def resumes_processed_st_error
      split: option.splits prod.splits sum.splits)

lemma resumes_processed_unlink_all:
  "resumes_processed (unlink_all e temp_files s) = resumes_processed s"
  by (induction temp_files arbitrary: s) simp_all

lemma save_uploads_names:
  assumes "save_uploads e ups tf pn s = (r, tf', pn', s')"
  shows "resumes_processed s' = resumes_processed s \<and> (r = None \<longrightarrow> pn' = pn @ map name ups)"
  using assms
proof (induction ups arbitrary: tf pn s)
  case Nil
  then show ?case by simp
next
  case (Cons f rest)
  show ?case
  proof (cases "mktemp e (files s) (''.'' @ last_dot_part (name f))")
    case (Inl err)
    with Cons.prems show ?thesis by auto
  next
    case (Inr path)
    with Cons.prems have
      "save_uploads e rest (tf @ [path]) (pn @ [name f]) (s\<lparr>files := (files s)(path \<mapsto> buffer f)\<rparr>)
         = (r, tf', pn', s')"
      by simp
    from Cons.IH [OF this] show ?thesis by simp
  qed
qed

text \<open>
  C10. \<^verbatim>\<open>process_uploaded_files\<close> extends the processed-resume list of the session, by
  the names of the uploaded files, exactly when it returns \<^verbatim>\<open>True\<close>; in every other
  outcome the list is unchanged. Once the uploads are saved and the documents processed,
  it returns \<^verbatim>\<open>False\<close> when no document was parsed, and otherwise what
  \<^verbatim>\<open>add_documents\<close> returns on the documents, \<^verbatim>\<open>False\<close> when the vector store
  fails to add them.
\<close>

theorem uploads_recorded_only_on_success:
  assumes run: "process_uploaded_files e s uploaded_files = (r, s')"
  shows "resumes_processed s' =
           (if r = Inr True then resumes_processed s @ map name uploaded_files
            else resumes_processed s) \<and>
         (\<forall>temp_files processed_names s1 documents s2 success s3.
            uploaded_files \<noteq> [] \<and>
            save_uploads e uploaded_files [] [] s = (None, temp_files, processed_names, s1) \<and>
            process_documents e s1 temp_files = (Inr documents, s2) \<and>
            add_documents e s2 documents = (success, s3)
            \<longrightarrow> r = Inr (documents \<noteq> [] \<and> success))"
proof (cases "uploaded_files = []")
  case True
  with run show ?thesis by (simp add: process_uploaded_files_def)
next
  case False
  obtain sv tf pn s1 where save: "save_uploads e uploaded_files [] [] s = (sv, tf, pn, s1)"
    by (cases "save_uploads e uploaded_files [] [] s")
  from save_uploads_names [OF save]
  have s1: "resumes_processed s1 = resumes_processed s"
    and names: "sv = None \<longrightarrow> pn = map name uploaded_files"
    by simp_all
  show ?thesis
  proof (cases sv)
    case (Some err)
    with run False save s1 show ?thesis
      by (auto simp: process_uploaded_files_def resumes_processed_unlink_all)
  next
    case None
    obtain pr s2 where proc: "process_documents e s1 tf = (pr, s2)"
      by (cases "process_documents e s1 tf")
    then have s2: "resumes_processed s2 = resumes_processed s"
      using resumes_processed_process_documents [of e s1 tf] s1 by simp
    show ?thesis
    proof (cases pr)
      case (Inl err)
      with run False save None proc s2 show ?thesis
        by (auto simp: process_uploaded_files_def resumes_processed_unlink_all)
    next
      case (Inr documents)
      obtain success s3 where add: "add_documents e s2 documents = (success, s3)"
        by (cases "add_documents e s2 documents")
      then have s3: "resumes_processed s3 = resumes_processed s"
        using resumes_processed_add_documents [of e s2 documents] s2 by simp
      show ?thesis
      proof (cases "documents = []")
        case True
        with add have "success = False" by (simp add: add_documents_def)
        with run False save None proc Inr True s2 add show ?thesis
          by (auto simp: process_uploaded_files_def resumes_processed_unlink_all add_documents_def)
      next
        case nonempty: False
        with run False save None proc Inr add s3 names show ?thesis
          by (cases success) (auto simp: process_uploaded_files_def resumes_processed_unlink_all)
      qed
    qed
  qed
qed


theorem uploads_recorded_only_on_success_witness:
  "save_uploads plain_env [cv_upload] [] [] ready_state =
     (None, [''/tmp/tmpk3x9.txt''], [''cv.txt''], saved_state) \<and>
   process_documents plain_env saved_state [''/tmp/tmpk3x9.txt''] = (Inr [acme_chunk], saved_state) \<and>
   fst (add_documents plain_env saved_state [acme_chunk]) = True \<and>
   fst (process_uploaded_files plain_env ready_state [cv_upload]) = Inr True \<and>
   resumes_processed (snd (process_uploaded_files plain_env ready_state [cv_upload])) = [''cv.txt''] \<and>
   fst (process_uploaded_files plain_env ready_state [\<lparr>name = ''cv.xyz'', buffer = ''PK''\<rparr>]) = Inr False \<and>
   resumes_processed
     (snd (process_uploaded_files plain_env ready_state [\<lparr>name = ''cv.xyz'', buffer = ''PK''\<rparr>])) = []"
proof -
  let ?xyz = "\<lparr>name = ''cv.xyz'', buffer = ''PK''\<rparr>"
  let ?s3 = "saved_state\<lparr>client := [COLLECTION_NAME \<mapsto> [acme_chunk]]\<rparr>"
  let ?x1 = "ready_state\<lparr>files := (files ready_state)(''/tmp/tmpk3x9.xyz'' \<mapsto> ''PK'')\<rparr>"
  let ?x2 = "st_error ''Error loading /tmp/tmpk3x9.xyz: Unsupported file type: .xyz'' ?x1"
  have suffix: "last_dot_part ''cv.txt'' = ''txt''" "last_dot_part ''cv.xyz'' = ''xyz''"
    by (simp_all add: last_dot_part_def)
  have ext: "file_extension ''/tmp/tmpk3x9.txt'' = ''.txt''"
    "file_extension ''/tmp/tmpk3x9.xyz'' = ''.xyz''"
    by code_simp+
  have base: "basename ''/tmp/tmpk3x9.txt'' = ''tmpk3x9.txt''" by code_simp
  have old: "resumes_processed ready_state = []"
    by (simp add: ready_state_eq initial_state_def)
  have save: "save_uploads plain_env [cv_upload] [] [] ready_state =
      (None, [''/tmp/tmpk3x9.txt''], [''cv.txt''], saved_state)"
    by (simp add: suffix saved_state_def cv_upload_def plain_env_def)
  have proc: "process_documents plain_env saved_state [''/tmp/tmpk3x9.txt''] =
      (Inr [acme_chunk], saved_state)"
    by (simp add: process_documents_def load_document_def load_document_try_def choose_loader_def
        ext base set_filename_def acme_chunk_def saved_state_def cv_upload_def plain_env_def)
  have add: "add_documents plain_env saved_state [acme_chunk] = (True, ?s3)"
    by (simp add: add_documents_def saved_state_def ready_state_eq plain_env_def)
  have save_x: "save_uploads plain_env [?xyz] [] [] ready_state =
      (None, [''/tmp/tmpk3x9.xyz''], [''cv.xyz''], ?x1)"
    by (simp add: suffix plain_env_def)
  have proc_x: "process_documents plain_env ?x1 [''/tmp/tmpk3x9.xyz''] = (Inr [], ?x2)"
    by (simp add: process_documents_def load_document_def load_document_try_def choose_loader_def
        ext)
  have add_x: "add_documents plain_env ?x2 [] = (False, ?x2)"
    by (simp add: add_documents_def)
  have run: "process_uploaded_files plain_env ready_state [cv_upload] =
      (fst (process_uploaded_files plain_env ready_state [cv_upload]),
       snd (process_uploaded_files plain_env ready_state [cv_upload]))"
    by simp
  note accepted = uploads_recorded_only_on_success [OF run]
  from accepted save proc add
  have "fst (process_uploaded_files plain_env ready_state [cv_upload]) =
      Inr ([acme_chunk] \<noteq> [] \<and> True)"
    by blast
  then have ok: "fst (process_uploaded_files plain_env ready_state [cv_upload]) = Inr True"
    by simp
  from accepted
  have ok_list: "resumes_processed (snd (process_uploaded_files plain_env ready_state [cv_upload])) =
      (if fst (process_uploaded_files plain_env ready_state [cv_upload]) = Inr True
       then resumes_processed ready_state @ map name [cv_upload] else resumes_processed ready_state)"
    by (rule conjunct1)
  have run_x: "process_uploaded_files plain_env ready_state [?xyz] =
      (fst (process_uploaded_files plain_env ready_state [?xyz]),
       snd (process_uploaded_files plain_env ready_state [?xyz]))"
    by simp
  note rejected = uploads_recorded_only_on_success [OF run_x]
  from rejected save_x proc_x add_x
  have "fst (process_uploaded_files plain_env ready_state [?xyz]) =
      Inr (([] :: document list) \<noteq> [] \<and> False)"
    by blast
  then have no: "fst (process_uploaded_files plain_env ready_state [?xyz]) = Inr False"
    by simp
  from rejected
  have no_list: "resumes_processed (snd (process_uploaded_files plain_env ready_state [?xyz])) =
      (if fst (process_uploaded_files plain_env ready_state [?xyz]) = Inr True
       then resumes_processed ready_state @ map name [?xyz] else resumes_processed ready_state)"
    by (rule conjunct1)
  from save proc add ok ok_list no no_list show ?thesis
    by (simp add: old cv_upload_def)
qed

subsection \<open>Answer orchestration\<close>

lemma get_prompt_template_eq:
  "get_prompt_template mode =
     Inr \<lparr>template = dict_get RESUME_PROMPTS mode prompt_general,
          input_variables = [''context'', ''question'']\<rparr>"
  by (simp add: get_prompt_template_def dict_index_def RESUME_PROMPTS_def)

lemma not_vector_store_none:
  "vector_store s = None \<Longrightarrow> not_vector_store e s = Inr True"
  by (simp add: not_vector_store_def)

lemma not_vector_store_missing:
  "vector_store s = Some (Chroma nm) \<Longrightarrow> client s nm = None \<Longrightarrow>
     not_vector_store e s = Inl (NotFoundError (not_found_text e nm))"
  by (simp add: not_vector_store_def)

lemma not_vector_store_counted:
  "vector_store s = Some (Chroma nm) \<Longrightarrow> client s nm = Some docs \<Longrightarrow>
     not_vector_store e s = Inr (docs = [])"
  by (simp add: not_vector_store_def)

lemma not_vector_store_frame:
  "not_vector_store e (s\<lparr>messages := m, shown := u\<rparr>) = not_vector_store e s"
  by (cases "vector_store s") (simp_all add: not_vector_store_def)

lemma get_retriever_frame:
  "get_retriever e (s\<lparr>messages := m, shown := u\<rparr>) k = get_retriever e s k"
  by (cases "not_vector_store e s") (simp_all add: get_retriever_def not_vector_store_frame)

lemma retrieve_frame:
  "retrieve e (s\<lparr>messages := m, shown := u\<rparr>) q k = retrieve e s q k"
  by (cases "get_retriever e s k") (auto simp: retrieve_def get_retriever_frame split: option.splits)

text \<open>
  A retrieval yields no chunk exactly in the states without a store object and in those
  whose store object is over an existing, empty collection.
\<close>

lemma retrieve_no_chunks_iff:
  "retrieve e s q 5 = Inr [] \<longleftrightarrow>
     vector_store s = None \<or> (\<exists>nm. vector_store s = Some (Chroma nm) \<and> client s nm = Some [])"
proof (cases "vector_store s")
  case None
  then show ?thesis
    by (simp add: retrieve_def get_retriever_def not_vector_store_none)
next
  case (Some vs)
  obtain nm where vs: "vs = Chroma nm" by (cases vs)
  show ?thesis
  proof (cases "client s nm")
    case None
    with Some vs show ?thesis
      by (simp add: retrieve_def get_retriever_def not_vector_store_missing)
  next
    case (Some docs)
    note coll = this
    show ?thesis
    proof (cases "docs = []")
      case True
      with \<open>vector_store s = Some vs\<close> vs coll show ?thesis
        by (simp add: retrieve_def get_retriever_def not_vector_store_counted)
    next
      case False
      then have "take 5 (sort_key (\<lambda>d. - similarity e q d) docs) \<noteq> []"
        by (cases "sort_key (\<lambda>d. - similarity e q d) docs")
           (auto dest: arg_cong [where f = length])
      with False \<open>vector_store s = Some vs\<close> vs coll show ?thesis
        by (simp add: retrieve_def get_retriever_def not_vector_store_counted
            split: option.splits)
    qed
  qed
qed

lemma setup_qa_chain_no_chunks:
  assumes "retrieve e s q 5 = Inr []"
  shows "setup_qa_chain e s mode = Inr None"
proof -
  from assms have "not_vector_store e s = Inr True"
    by (auto simp: retrieve_no_chunks_iff not_vector_store_none not_vector_store_counted)
  then show ?thesis
    by (simp add: setup_qa_chain_def get_retriever_def)
qed

lemma answer_question_no_chunks:
  assumes "retrieve e s q 5 = Inr []"
  shows "answer_question e msg s q = st_error msg s"
  using setup_qa_chain_no_chunks [OF assms] by (simp add: answer_question_def)

lemma chat_input_no_chunks:
  assumes "retrieve e s q 5 = Inr []"
  shows "chat_input e s q =
           st_error ''Unable to setup analysis chain. Please check your resumes.''
             (s\<lparr>messages := messages s @ [\<lparr>role = ''user'', content = q, sources = None\<rparr>],
                shown := shown s @ [StMarkdown q]\<rparr>)"
  using assms by (simp add: chat_input_def answer_question_no_chunks retrieve_frame)
















text \<open>
  The language model is invoked for a question only with the chunks a retrieval returned,
  at least one: with them it is invoked once, with the prompt of the current mode, and
  when the retrieval raises it is not invoked.
\<close>

lemma llm_log_show_answer: "llm_log (show_answer response srcs s) = llm_log s"
  by (simp add: show_answer_def Let_def)

lemma llm_log_show_exception: "llm_log (show_exception err s) = llm_log s"
  by (simp add: show_exception_def Let_def st_error_def)

lemma answer_question_chunks:
  assumes "retrieve e s q 5 = Inr docs" and "docs \<noteq> []"
  shows "llm_log (answer_question e msg s q) =
           llm_log s @ [format_prompt (dict_get RESUME_PROMPTS (current_prompt_type s) prompt_general)
                          (join_texts (map page_content docs)) q]"
proof -
  from assms obtain r where r: "get_retriever e s 5 = Inr (Some r)"
    and search: "similarity_search e (client s) (r_store r) q (nat (r_k r)) = Inr docs"
    by (auto simp: retrieve_def split: sum.splits option.splits)
  show ?thesis
    by (simp add: answer_question_def setup_qa_chain_def r get_prompt_template_eq run_chain_def
        search Let_def llm_log_show_answer llm_log_show_exception split: sum.splits prod.splits)
qed

lemma answer_question_raises:
  assumes "retrieve e s q 5 = Inl err"
  shows "llm_log (answer_question e msg s q) = llm_log s"
  using assms
  by (auto simp: answer_question_def setup_qa_chain_def retrieve_def run_chain_def
      get_prompt_template_eq llm_log_show_exception split: sum.splits option.splits)

lemma model_invoked_only_with_chunks:
  assumes "llm_log (chat_input e s q) \<noteq> llm_log s"
  shows "\<exists>docs. retrieve e s q 5 = Inr docs \<and> docs \<noteq> []"
proof (cases "retrieve e s q 5")
  case (Inl err)
  then have "retrieve e (s\<lparr>messages := messages s @ [\<lparr>role = ''user'', content = q, sources = None\<rparr>],
                shown := shown s @ [StMarkdown q]\<rparr>) q 5 = Inl err"
    by (simp add: retrieve_frame)
  from answer_question_raises [OF this] assms show ?thesis
    by (simp add: chat_input_def)
next
  case (Inr docs)
  show ?thesis
  proof (cases "docs = []")
    case True
    with Inr chat_input_no_chunks [of e s q] assms show ?thesis
      by (simp add: st_error_def)
  next
    case False
    with Inr show ?thesis by simp
  qed
qed



end
